theory Spec2Isabelle
  imports Main "HOL-Library.Sublist"
begin

section \<open>Python values, exceptions and responses\<close>

text \<open>
  The two servers, \<^verbatim>\<open>app.py\<close> and \<^verbatim>\<open>youtube_converter_server.py\<close>, handle values that
  come out of a JSON parser and go back into \<^verbatim>\<open>jsonify\<close>. One datatype holds them all: the
  parsed request body, the \<^verbatim>\<open>ydl_opts\<close> dictionary, the metadata returned by
  \<^verbatim>\<open>extract_info\<close> and the response bodies. A Python \<^verbatim>\<open>dict\<close> is an association list
  read with \<open>map_of\<close>; \<^verbatim>\<open>None\<close> is \<open>JNull\<close>. Numbers are integers: the handlers only ever
  test a number for being zero.
\<close>

datatype json =
    JNull
  | JBool bool
  | JNum int
  | JStr string
  | JArr "json list"
  | JObj "(string \<times> json) list"

type_synonym path = string

type_synonym ydl_opts = "(string \<times> json) list"

text \<open>Python's truth value of an object, as \<^verbatim>\<open>not x\<close> and \<^verbatim>\<open>if x\<close> read it.\<close>

fun truthy :: "json \<Rightarrow> bool" where
  "truthy JNull = False"
| "truthy (JBool b) = b"
| "truthy (JNum n) = (n \<noteq> 0)"
| "truthy (JStr s) = (s \<noteq> [])"
| "truthy (JArr xs) = (xs \<noteq> [])"
| "truthy (JObj kvs) = (kvs \<noteq> [])"

text \<open>\<^verbatim>\<open>type(x).__name__\<close>, which Python's error messages quote.\<close>

fun type_name :: "json \<Rightarrow> string" where
  "type_name JNull = ''NoneType''"
| "type_name (JBool b) = ''bool''"
| "type_name (JNum n) = ''int''"
| "type_name (JStr s) = ''str''"
| "type_name (JArr xs) = ''list''"
| "type_name (JObj kvs) = ''dict''"

text \<open>
  Exceptions: the class that matters to an \<^verbatim>\<open>except\<close> clause and the text \<^verbatim>\<open>str(e)\<close>.
  All of them are subclasses of \<^verbatim>\<open>Exception\<close>. \<open>HTTPException\<close> is what Flask raises from
  \<^verbatim>\<open>request.get_json()\<close> on a body that is not JSON; \<open>AdapterError\<close> stands for whatever
  \<^verbatim>\<open>yt_dlp\<close> raises.
\<close>

datatype exn_class = HTTPException | AttributeError | TypeError | KeyError | OSError | AdapterError

datatype exn = Exn exn_class string

fun str_exn :: "exn \<Rightarrow> string" where
  "str_exn (Exn c m) = m"

text \<open>
  A response is either \<^verbatim>\<open>jsonify(body), status\<close> or the result of
  \<^verbatim>\<open>send_file(path, as_attachment, download_name, mimetype)\<close>.
\<close>

datatype response =
    Json nat json
  | File path bool "string option" "string option"

fun status_code :: "response \<Rightarrow> nat" where
  "status_code (Json s b) = s"
| "status_code (File p a d m) = 200"

text \<open>The value of the \<^verbatim>\<open>error\<close> member of a JSON body, when the body has one.\<close>

fun error_field :: "response \<Rightarrow> json option" where
  "error_field (Json s (JObj kvs)) = map_of kvs ''error''"
| "error_field (Json s b) = None"
| "error_field (File p a d m) = None"

text \<open>\<^verbatim>\<open>d.get(k)\<close>: the value, or \<^verbatim>\<open>None\<close> when the key is absent.\<close>

definition dict_get :: "(string \<times> json) list \<Rightarrow> string \<Rightarrow> json" where
  "dict_get kvs k = (case map_of kvs k of None \<Rightarrow> JNull | Some v \<Rightarrow> v)"

text \<open>
  \<^verbatim>\<open>k in x\<close> for a string \<open>k\<close>: key membership in a dict, element membership in a list,
  substring test in a string, and a \<^verbatim>\<open>TypeError\<close> on anything else.
\<close>

fun py_in :: "string \<Rightarrow> json \<Rightarrow> exn + bool" where
  "py_in k (JObj kvs) = Inr (k \<in> set (map fst kvs))"
| "py_in k (JArr xs) = Inr (JStr k \<in> set xs)"
| "py_in k (JStr s) = Inr (sublist k s)"
| "py_in k v = Inl (Exn TypeError (''argument of type '' @ [CHR 0x27] @ type_name v @ [CHR 0x27] @ '' is not iterable''))"

text \<open>\<^verbatim>\<open>x[k]\<close> for a string \<open>k\<close>.\<close>

fun py_subscript :: "json \<Rightarrow> string \<Rightarrow> exn + json" where
  "py_subscript (JObj kvs) k =
     (case map_of kvs k of None \<Rightarrow> Inl (Exn KeyError ([CHR 0x27] @ k @ [CHR 0x27])) | Some v \<Rightarrow> Inr v)"
| "py_subscript (JArr xs) k = Inl (Exn TypeError ''list indices must be integers or slices, not str'')"
| "py_subscript (JStr s) k = Inl (Exn TypeError ''string indices must be integers'')"
| "py_subscript v k = Inl (Exn TypeError ([CHR 0x27] @ type_name v @ [CHR 0x27] @ '' object is not subscriptable''))"

section \<open>Strings and paths\<close>

text \<open>
  \<^verbatim>\<open>s.replace(old, new)\<close>: every occurrence of \<open>old\<close>, found left to right without overlap,
  becomes \<open>new\<close>. With an empty \<open>old\<close> Python puts \<open>new\<close> before every character and at
  the end.
\<close>

function replace :: "string \<Rightarrow> string \<Rightarrow> string \<Rightarrow> string" where
  "replace old new [] = (if old = [] then new else [])"
| "replace old new (c # cs) =
     (if old = [] then new @ c # replace old new cs
      else if prefix old (c # cs) then new @ replace old new (drop (length old) (c # cs))
      else c # replace old new cs)"
  by pat_completeness auto
termination
  by (relation "measure (\<lambda>(old, new, s). length s)") auto

text \<open>\<^verbatim>\<open>os.path.join(a, b)\<close> on a POSIX system.\<close>

definition path_join :: "path \<Rightarrow> path \<Rightarrow> path" where
  "path_join a b =
     (if prefix ''/'' b then b
      else if a = [] \<or> last a = CHR ''/'' then a @ b
      else a @ ''/'' @ b)"

text \<open>\<^verbatim>\<open>os.path.basename(p)\<close>: what follows the last slash.\<close>

definition basename :: "path \<Rightarrow> string" where
  "basename p = rev (takeWhile (\<lambda>c. c \<noteq> CHR ''/'') (rev p))"

section \<open>The world outside the handlers\<close>

text \<open>
  What a handler reads of a request: the outcome of \<^verbatim>\<open>request.get_json()\<close> (the parsed
  body, or the exception Flask raises when the body is not JSON) and the query string.
\<close>

record request =
  json_body :: "exn + json"
  args :: "(string \<times> string) list"

datatype level = INFO | WARNING | ERROR

datatype log_msg =
    ReceivedRequest json
  | StartingDownload path
  | OutputNotFound path
  | ConversionSuccessful path
  | ErrorConverting string
  | DeletedTemp path
  | FailedDelete string
  | GettingInfo string
  | ErrorGettingInfo string

text \<open>One invocation of the adapter: the options, the URL and, for metadata, the download flag.\<close>

datatype ydl_call =
    Download ydl_opts json
  | ExtractInfo ydl_opts json bool

text \<open>
  The state a handler can change: the files on disk, the adapter invocations made so far
  and the log.
\<close>

record world =
  files :: "path set"
  ydl_calls :: "ydl_call list"
  log :: "(level \<times> log_msg) list"

text \<open>
  The collaborators the repository does not define. \<open>ydl_download opts url fs\<close> is
  \<^verbatim>\<open>YoutubeDL(opts).download([url])\<close> run on the files \<open>fs\<close>: it returns the files it
  leaves behind and, when it raises, the text of the exception. \<open>ydl_extract_info\<close> is
  \<^verbatim>\<open>YoutubeDL(opts).extract_info(url, download=d)\<close>. \<open>os_remove_error p\<close> is the text of
  the error \<^verbatim>\<open>os.remove(p)\<close> raises on an existing \<open>p\<close>, if it does; \<open>open_error p\<close>
  likewise for opening an existing \<open>p\<close> in \<^verbatim>\<open>send_file\<close>. \<open>TEMP_DIR\<close> is
  \<^verbatim>\<open>tempfile.gettempdir()\<close>.
\<close>

record env =
  TEMP_DIR :: path
  ydl_download :: "ydl_opts \<Rightarrow> json \<Rightarrow> path set \<Rightarrow> string option \<times> path set"
  ydl_extract_info :: "ydl_opts \<Rightarrow> json \<Rightarrow> bool \<Rightarrow> path set \<Rightarrow> (string + json) \<times> path set"
  os_remove_error :: "path \<Rightarrow> string option"
  open_error :: "path \<Rightarrow> string option"

definition add_log :: "level \<Rightarrow> log_msg \<Rightarrow> world \<Rightarrow> world" where
  "add_log l m w = w\<lparr>log := log w @ [(l, m)]\<rparr>"

text \<open>
  \<^verbatim>\<open>send_file\<close> raises when the file is missing or cannot be opened, and otherwise
  returns the response that streams it.
\<close>

definition send_file ::
  "env \<Rightarrow> path \<Rightarrow> bool \<Rightarrow> string option \<Rightarrow> string option \<Rightarrow> path set \<Rightarrow> exn + response" where
  "send_file e p as_attachment download_name mimetype fs =
     (if p \<notin> fs then Inl (Exn OSError (''No such file or directory: '' @ p))
      else case open_error e p of
        Some m \<Rightarrow> Inl (Exn OSError m)
      | None \<Rightarrow> Inr (File p as_attachment download_name mimetype))"

text \<open>
  The name a client sees for an attachment: \<^verbatim>\<open>download_name\<close> when given, and otherwise
  the base name of the path, which is the default of \<^verbatim>\<open>send_file\<close>.
\<close>

fun attachment_name :: "response \<Rightarrow> string option" where
  "attachment_name (File p a d m) =
     (if a then Some (case d of Some n \<Rightarrow> n | None \<Rightarrow> basename p) else None)"
| "attachment_name (Json s b) = None"

definition error_body :: "string \<Rightarrow> json" where
  "error_body m = JObj [(''error'', JStr m)]"

section \<open>youtube\_converter\_server.py: ping\<close>

definition ping :: "world \<Rightarrow> (exn + response) \<times> world" where
  "ping w = (Inr (Json 200 (JObj [(''status'', JStr ''ok''), (''message'', JStr ''Server is running'')])), w)"

section \<open>app.py: convert\<close>

text \<open>
  The handlers take the text of \<^verbatim>\<open>uuid.uuid4()\<close> drawn for the request as the argument
  \<open>u\<close>. An \<open>Inl\<close> result is an exception that leaves the handler.
\<close>

definition convert_opts :: "path \<Rightarrow> ydl_opts" where
  "convert_opts output_path =
     [(''format'', JStr ''bestaudio/best''),
      (''outtmpl'', JStr output_path),
      (''postprocessors'',
         JArr [JObj [(''key'', JStr ''FFmpegExtractAudio''), (''preferredcodec'', JStr ''mp3'')]])]"

definition convert :: "env \<Rightarrow> string \<Rightarrow> request \<Rightarrow> world \<Rightarrow> (exn + response) \<times> world" where
  "convert e u req w =
     (case json_body req of
        Inl ex \<Rightarrow> (Inl ex, w)
      | Inr data \<Rightarrow>
          (case data of
             JObj kvs \<Rightarrow>
               (let url = dict_get kvs ''url'' in
                if \<not> truthy url then (Inr (Json 400 (error_body ''No URL provided'')), w)
                else
                  (let output_filename = u @ ''.mp3'';
                       output_path = ''/tmp/'' @ output_filename;
                       ydl_opts = convert_opts output_path;
                       (raised, fs) = ydl_download e ydl_opts url (files w);
                       w1 = w\<lparr>files := fs, ydl_calls := ydl_calls w @ [Download ydl_opts url]\<rparr>
                   in case raised of
                        Some m \<Rightarrow> (Inr (Json 500 (error_body m)), w1)
                      | None \<Rightarrow> (send_file e output_path True None None (files w1), w1)))
           | _ \<Rightarrow>
               (Inl (Exn AttributeError
                  ([CHR 0x27] @ type_name data @ [CHR 0x27] @ '' object has no attribute '' @
                   [CHR 0x27] @ ''get'' @ [CHR 0x27])), w)))"

section \<open>youtube\_converter\_server.py: convert\_youtube\<close>

definition youtube_opts :: "path \<Rightarrow> ydl_opts" where
  "youtube_opts output_path =
     [(''format'', JStr ''bestaudio/best''),
      (''postprocessors'',
         JArr [JObj [(''key'', JStr ''FFmpegExtractAudio''),
                     (''preferredcodec'', JStr ''mp3''),
                     (''preferredquality'', JStr ''192'')]]),
      (''outtmpl'', JStr (replace ''.mp3'' [] output_path)),
      (''quiet'', JBool False),
      (''no_warnings'', JBool False),
      (''noprogress'', JBool True)]"

text \<open>
  The body of the \<^verbatim>\<open>try\<close> block. Besides its outcome it returns the value of
  \<^verbatim>\<open>actual_output_path\<close> when that local variable has been bound, which is what the
  \<^verbatim>\<open>finally\<close> block asks \<^verbatim>\<open>locals()\<close>.
\<close>

definition convert_youtube_try ::
  "env \<Rightarrow> string \<Rightarrow> request \<Rightarrow> world \<Rightarrow> (exn + response) \<times> path option \<times> world" where
  "convert_youtube_try e u req w =
     (case json_body req of
        Inl ex \<Rightarrow> (Inl ex, None, w)
      | Inr data \<Rightarrow>
          if \<not> truthy data then (Inr (Json 400 (error_body ''No URL provided'')), None, w)
          else
            (case py_in ''url'' data of
               Inl ex \<Rightarrow> (Inl ex, None, w)
             | Inr False \<Rightarrow> (Inr (Json 400 (error_body ''No URL provided'')), None, w)
             | Inr True \<Rightarrow>
                 (case py_subscript data ''url'' of
                    Inl ex \<Rightarrow> (Inl ex, None, w)
                  | Inr youtube_url \<Rightarrow>
                      (let w1 = add_log INFO (ReceivedRequest youtube_url) w;
                           filename = u @ ''.mp3'';
                           output_path = path_join (TEMP_DIR e) filename;
                           ydl_opts = youtube_opts output_path;
                           w2 = add_log INFO (StartingDownload output_path) w1;
                           (raised, fs) = ydl_download e ydl_opts youtube_url (files w2);
                           w3 = w2\<lparr>files := fs,
                                   ydl_calls := ydl_calls w2 @ [Download ydl_opts youtube_url]\<rparr>
                       in case raised of
                            Some m \<Rightarrow> (Inl (Exn AdapterError m), None, w3)
                          | None \<Rightarrow>
                              (let actual_output_path = replace ''.mp3'' [] output_path @ ''.mp3'' in
                               if actual_output_path \<notin> files w3
                               then (Inr (Json 500 (error_body ''Failed to convert video'')),
                                     Some actual_output_path,
                                     add_log ERROR (OutputNotFound actual_output_path) w3)
                               else
                                 (let w4 = add_log INFO (ConversionSuccessful actual_output_path) w3
                                  in (send_file e actual_output_path True (Some filename)
                                        (Some ''audio/mpeg'') (files w4),
                                      Some actual_output_path, w4)))))))"

text \<open>The \<^verbatim>\<open>finally\<close> block: remove the file if it is there, and only warn when that fails.\<close>

definition convert_youtube_finally :: "env \<Rightarrow> path option \<Rightarrow> world \<Rightarrow> world" where
  "convert_youtube_finally e actual w =
     (case actual of
        None \<Rightarrow> w
      | Some actual_output_path \<Rightarrow>
          if actual_output_path \<in> files w then
            (case os_remove_error e actual_output_path of
               Some m \<Rightarrow> add_log WARNING (FailedDelete m) w
             | None \<Rightarrow>
                 add_log INFO (DeletedTemp actual_output_path)
                   (w\<lparr>files := files w - {actual_output_path}\<rparr>))
          else w)"

text \<open>The whole handler: \<^verbatim>\<open>try\<close>, \<^verbatim>\<open>except Exception\<close>, \<^verbatim>\<open>finally\<close>.\<close>

definition convert_youtube :: "env \<Rightarrow> string \<Rightarrow> request \<Rightarrow> world \<Rightarrow> (exn + response) \<times> world" where
  "convert_youtube e u req w =
     (let (r, actual, w1) = convert_youtube_try e u req w;
          (resp, w2) =
            (case r of
               Inr resp \<Rightarrow> (resp, w1)
             | Inl ex \<Rightarrow>
                 (Json 500 (error_body (str_exn ex)), add_log ERROR (ErrorConverting (str_exn ex)) w1))
      in (Inr resp, convert_youtube_finally e actual w2))"

section \<open>youtube\_converter\_server.py: get\_video\_info\<close>

definition info_opts :: ydl_opts where
  "info_opts =
     [(''format'', JStr ''bestaudio/best''),
      (''quiet'', JBool True),
      (''no_warnings'', JBool True),
      (''noprogress'', JBool True),
      (''skip_download'', JBool True)]"

definition get_video_info_try :: "env \<Rightarrow> request \<Rightarrow> world \<Rightarrow> (exn + response) \<times> world" where
  "get_video_info_try e req w =
     (case map_of (args req) ''url'' of
        None \<Rightarrow> (Inr (Json 400 (error_body ''No URL provided'')), w)
      | Some youtube_url \<Rightarrow>
          if youtube_url = [] then (Inr (Json 400 (error_body ''No URL provided'')), w)
          else
            (let w1 = add_log INFO (GettingInfo youtube_url) w;
                 (r, fs) = ydl_extract_info e info_opts (JStr youtube_url) False (files w1);
                 w2 = w1\<lparr>files := fs,
                         ydl_calls := ydl_calls w1 @ [ExtractInfo info_opts (JStr youtube_url) False]\<rparr>
             in case r of
                  Inl m \<Rightarrow> (Inl (Exn AdapterError m), w2)
                | Inr info \<Rightarrow>
                    (case info of
                       JObj kvs \<Rightarrow>
                         (Inr (Json 200 (JObj
                            [(''id'', dict_get kvs ''id''),
                             (''title'', dict_get kvs ''title''),
                             (''uploader'', dict_get kvs ''uploader''),
                             (''duration'', dict_get kvs ''duration''),
                             (''thumbnail'', dict_get kvs ''thumbnail'')])), w2)
                     | _ \<Rightarrow>
                         (Inl (Exn AttributeError
                            ([CHR 0x27] @ type_name info @ [CHR 0x27] @ '' object has no attribute '' @
                             [CHR 0x27] @ ''get'' @ [CHR 0x27])), w2))))"

definition get_video_info :: "env \<Rightarrow> request \<Rightarrow> world \<Rightarrow> (exn + response) \<times> world" where
  "get_video_info e req w =
     (case get_video_info_try e req w of
        (Inr resp, w1) \<Rightarrow> (Inr resp, w1)
      | (Inl ex, w1) \<Rightarrow>
          (Inr (Json 500 (error_body (str_exn ex))), add_log ERROR (ErrorGettingInfo (str_exn ex)) w1))"

section \<open>The text of a UUID\<close>

text \<open>
  The text of a version 4 UUID as \<^verbatim>\<open>str(uuid.uuid4())\<close> prints it: 36 characters, lower
  case hexadecimal digits in groups of 8, 4, 4, 4 and 12 with hyphens between them.
\<close>

definition uuid_text :: "string \<Rightarrow> bool" where
  "uuid_text u =
     (length u = 36
      \<and> list_all (\<lambda>c. c \<in> set ''0123456789abcdef-'') u
      \<and> map (\<lambda>i. u ! i) [8, 13, 18, 23] = ''----''
      \<and> length (filter (\<lambda>c. c = CHR ''-'') u) = 4)"

section \<open>Sample collaborators and inputs\<close>

text \<open>
  Concrete adapters, an environment, a request and a starting state, on which the statements
  below are evaluated. \<open>adapter_appends_extension\<close> writes the template plus
  \<^verbatim>\<open>.mp3\<close>, which is how the comment in \<^verbatim>\<open>convert_youtube\<close> describes the adapter;
  \<open>adapter_writes_template\<close> writes the template as it is.
\<close>

definition sample_uuid :: string where
  "sample_uuid = ''1b4e28ba-2fa1-41d2-883f-0016d3cca427''"

definition adapter_appends_extension :: "ydl_opts \<Rightarrow> json \<Rightarrow> path set \<Rightarrow> string option \<times> path set" where
  "adapter_appends_extension opts url fs =
     (case map_of opts ''outtmpl'' of
        Some (JStr t) \<Rightarrow> (None, insert (t @ ''.mp3'') fs)
      | _ \<Rightarrow> (Some ''outtmpl missing'', fs))"

definition adapter_writes_template :: "ydl_opts \<Rightarrow> json \<Rightarrow> path set \<Rightarrow> string option \<times> path set" where
  "adapter_writes_template opts url fs =
     (case map_of opts ''outtmpl'' of
        Some (JStr t) \<Rightarrow> (None, insert t fs)
      | _ \<Rightarrow> (Some ''outtmpl missing'', fs))"

definition adapter_raises :: "string \<Rightarrow> ydl_opts \<Rightarrow> json \<Rightarrow> path set \<Rightarrow> string option \<times> path set" where
  "adapter_raises m opts url fs = (Some m, fs)"

definition sample_env ::
  "(ydl_opts \<Rightarrow> json \<Rightarrow> path set \<Rightarrow> string option \<times> path set) \<Rightarrow> env" where
  "sample_env dl =
     \<lparr>TEMP_DIR = ''/tmp'',
      ydl_download = dl,
      ydl_extract_info =
        (\<lambda>opts url d fs.
           (Inr (JObj [(''id'', JStr ''dQw4w9WgXcQ''), (''title'', JStr ''A song''), (''duration'', JNum 212)]), fs)),
      os_remove_error = (\<lambda>p. None),
      open_error = (\<lambda>p. None)\<rparr>"

definition sample_request :: "string \<Rightarrow> request" where
  "sample_request url = \<lparr>json_body = Inr (JObj [(''url'', JStr url)]), args = [(''url'', url)]\<rparr>"

definition empty_world :: world where
  "empty_world = \<lparr>files = {}, ydl_calls = [], log = []\<rparr>"

section \<open>Facts about strings, paths and UUID texts\<close>

lemma replace_strip_suffix:
  "CHR ''.'' \<notin> set s \<Longrightarrow> replace ''.mp3'' [] (s @ ''.mp3'') = s"
proof (induction s)
  case Nil
  show ?case by simp
next
  case (Cons c cs)
  then have "c \<noteq> CHR ''.''" by auto
  then have "\<not> prefix ''.mp3'' (c # cs @ ''.mp3'')" by simp
  then show ?case using Cons by simp
qed

lemma prefix_before_sep:
  "c \<notin> set old \<Longrightarrow> prefix old (a @ c # b) \<Longrightarrow> prefix old a"
proof (induction a arbitrary: old)
  case Nil
  then show ?case by (cases old) auto
next
  case (Cons x xs)
  show ?case
  proof (cases old)
    case Nil
    then show ?thesis by simp
  next
    case (Cons y ys)
    with Cons.prems have "y = x" "prefix ys (xs @ c # b)" "c \<notin> set ys" by simp_all
    with Cons.IH[of ys] Cons show ?thesis by simp
  qed
qed

lemma takeWhile_all: "\<forall>x\<in>set xs. P x \<Longrightarrow> takeWhile P xs = xs"
  by (induction xs) auto

lemma basename_after_sep:
  "CHR ''/'' \<notin> set f \<Longrightarrow> basename (a @ CHR ''/'' # f) = f"
proof -
  assume h: "CHR ''/'' \<notin> set f"
  have "takeWhile (\<lambda>c. c \<noteq> CHR ''/'') (rev f @ CHR ''/'' # rev a) = rev f"
  proof -
    have "takeWhile (\<lambda>c. c \<noteq> CHR ''/'') (rev f @ CHR ''/'' # rev a)
          = takeWhile (\<lambda>c. c \<noteq> CHR ''/'') (rev f)"
      by (rule takeWhile_tail) simp
    moreover have "\<forall>x\<in>set (rev f). x \<noteq> CHR ''/''" using h by auto
    ultimately show ?thesis by (simp add: takeWhile_all)
  qed
  then show ?thesis by (simp add: basename_def)
qed

lemma basename_plain:
  "CHR ''/'' \<notin> set f \<Longrightarrow> basename f = f"
proof -
  assume "CHR ''/'' \<notin> set f"
  then have "\<forall>x\<in>set (rev f). x \<noteq> CHR ''/''" by auto
  then show ?thesis by (simp add: basename_def takeWhile_all)
qed

lemma uuid_text_chars:
  assumes "uuid_text u"
  shows "CHR ''.'' \<notin> set u \<and> CHR ''/'' \<notin> set u \<and> u \<noteq> []"
proof -
  from assms have a: "list_all (\<lambda>c. c \<in> set ''0123456789abcdef-'') u" and l: "length u = 36"
    unfolding uuid_text_def by blast+
  from a have "\<forall>c\<in>set u. c \<in> set ''0123456789abcdef-''" by (simp only: list_all_iff)
  then have b: "\<And>c. c \<in> set u \<Longrightarrow> c \<in> set ''0123456789abcdef-''" by blast
  have "CHR ''.'' \<notin> set u"
  proof
    assume "CHR ''.'' \<in> set u"
    from b[OF this] show False by simp
  qed
  moreover have "CHR ''/'' \<notin> set u"
  proof
    assume "CHR ''/'' \<in> set u"
    from b[OF this] show False by simp
  qed
  moreover from l have "u \<noteq> []" by auto
  ultimately show ?thesis by simp
qed

lemma uuid_example: "uuid_text sample_uuid"
  by (simp add: uuid_text_def sample_uuid_def)


lemma replace_sep:
  "old \<noteq> [] \<Longrightarrow> c \<notin> set old \<Longrightarrow>
   replace old new (a @ c # b) = replace old new a @ c # replace old new b"
proof (induction old new a rule: replace.induct)
  case (1 old new)
  then have "\<not> prefix old (c # b)" by (cases old) auto
  with 1 show ?case by simp
next
  case (2 old new x xs)
  show ?case
  proof (cases "prefix old (x # xs)")
    case True
    then have p: "prefix old ((x # xs) @ c # b)" by (rule prefix_prefix)
    have "length old \<le> length (x # xs)" using True by (rule prefix_length_le)
    then have d: "drop (length old) ((x # xs) @ c # b) = drop (length old) (x # xs) @ c # b"
      by (simp del: append_Cons drop_Suc_Cons)
    have "replace old new ((x # xs) @ c # b)
          = new @ replace old new (drop (length old) ((x # xs) @ c # b))"
      using p "2.prems"(1) by simp
    also have "\<dots> = new @ replace old new (drop (length old) (x # xs)) @ c # replace old new b"
      using "2.IH"(2)[OF "2.prems"(1) True "2.prems"] d by simp
    also have "\<dots> = replace old new (x # xs) @ c # replace old new b"
      using True "2.prems"(1) by simp
    finally show ?thesis .
  next
    case False
    then have "\<not> prefix old ((x # xs) @ c # b)"
      using prefix_before_sep[OF "2.prems"(2)] by blast
    then have "\<not> prefix old (x # xs @ c # b)" by simp
    then show ?thesis using "2.IH"(3)[OF "2.prems"(1) False "2.prems"] False "2.prems"(1) by simp
  qed
qed

lemma replace_absent:
  "old \<noteq> [] \<Longrightarrow> \<not> sublist old s \<Longrightarrow> replace old new s = s"
proof (induction s)
  case Nil
  then show ?case by simp
next
  case (Cons x xs)
  then have "\<not> prefix old (x # xs)" "\<not> sublist old xs"
    by (simp_all add: sublist_Cons_right)
  with Cons show ?case by simp
qed

lemma uuid_not_abs: "uuid_text u \<Longrightarrow> \<not> prefix ''/'' (u @ s)"
  using uuid_text_chars[of u] by (cases u) auto

lemma template_in_temp_dir:
  assumes u: "uuid_text u" and t: "\<not> sublist ''.mp3'' T"
  shows "replace ''.mp3'' [] (path_join T (u @ ''.mp3'')) = path_join T u"
proof -
  from uuid_text_chars[OF u] have dot: "CHR ''.'' \<notin> set u" by simp
  have strip: "replace ''.mp3'' [] (u @ ''.mp3'') = u" using dot by (rule replace_strip_suffix)
  have na: "\<not> prefix ''/'' (u @ ''.mp3'')" "\<not> prefix ''/'' u"
    using uuid_not_abs[OF u, of "''.mp3''"] uuid_not_abs[OF u, of "[]"] by simp_all
  have sep: "replace ''.mp3'' [] (X @ CHR ''/'' # u @ ''.mp3'') = X @ CHR ''/'' # u"
    if "\<not> sublist ''.mp3'' X" for X
  proof -
    have "replace ''.mp3'' [] (X @ CHR ''/'' # u @ ''.mp3'')
          = replace ''.mp3'' [] X @ CHR ''/'' # replace ''.mp3'' [] (u @ ''.mp3'')"
      by (rule replace_sep) simp_all
    also have "replace ''.mp3'' [] X = X" using that by (simp add: replace_absent)
    finally show ?thesis using strip by simp
  qed
  show ?thesis
  proof (cases "T = []")
    case True
    then show ?thesis using na strip by (simp add: path_join_def)
  next
    case False
    show ?thesis
    proof (cases "last T = CHR ''/''")
      case True
      with False have T: "T = butlast T @ [CHR ''/'']" by (metis append_butlast_last_id)
      have "sublist (butlast T) T" by (rule prefix_imp_sublist) (rule prefixeq_butlast)
      with t have "\<not> sublist ''.mp3'' (butlast T)"
        using sublist_order.order.trans by blast
      from sep[OF this] have "replace ''.mp3'' [] (T @ u @ ''.mp3'') = T @ u"
        using T by (metis append_Cons append_Nil append_assoc)
      then show ?thesis using na True by (simp add: path_join_def)
    next
      case nl: False
      from sep[OF t] show ?thesis using na nl False by (simp add: path_join_def)
    qed
  qed
qed

lemma actual_basename:
  assumes u: "uuid_text u"
  shows "basename (replace ''.mp3'' [] (path_join T (u @ ''.mp3'')) @ ''.mp3'') = u @ ''.mp3''"
proof -
  from uuid_text_chars[OF u] have dot: "CHR ''.'' \<notin> set u" and sl: "CHR ''/'' \<notin> set (u @ ''.mp3'')"
    by simp_all
  have strip: "replace ''.mp3'' [] (u @ ''.mp3'') = u" using dot by (rule replace_strip_suffix)
  have na: "\<not> prefix ''/'' (u @ ''.mp3'')" using uuid_not_abs[OF u] by simp
  have sep: "basename (replace ''.mp3'' [] (X @ CHR ''/'' # u @ ''.mp3'') @ ''.mp3'') = u @ ''.mp3''" for X
  proof -
    have "replace ''.mp3'' [] (X @ CHR ''/'' # u @ ''.mp3'')
          = replace ''.mp3'' [] X @ CHR ''/'' # replace ''.mp3'' [] (u @ ''.mp3'')"
      by (rule replace_sep) simp_all
    then have "replace ''.mp3'' [] (X @ CHR ''/'' # u @ ''.mp3'') @ ''.mp3''
          = replace ''.mp3'' [] X @ CHR ''/'' # (u @ ''.mp3'')"
      using strip by simp
    then show ?thesis using basename_after_sep[OF sl] by simp
  qed
  show ?thesis
  proof (cases "T = []")
    case True
    then show ?thesis using na strip basename_plain[OF sl] by (simp add: path_join_def)
  next
    case False
    show ?thesis
    proof (cases "last T = CHR ''/''")
      case True
      with False have T: "T = butlast T @ [CHR ''/'']" by (metis append_butlast_last_id)
      have "path_join T (u @ ''.mp3'') = butlast T @ CHR ''/'' # u @ ''.mp3''"
        using na True T by (metis append_Cons append_Nil append_assoc path_join_def)
      then show ?thesis using sep[of "butlast T"] by simp
    next
      case nl: False
      then have "path_join T (u @ ''.mp3'') = T @ CHR ''/'' # u @ ''.mp3''"
        using na False by (simp add: path_join_def)
      then show ?thesis using sep[of T] by simp
    qed
  qed
qed

section \<open>What the handlers compute\<close>

lemma add_log_fields:
  "files (add_log l m w) = files w"
  "ydl_calls (add_log l m w) = ydl_calls w"
  "log (add_log l m w) = log w @ [(l, m)]"
  by (simp_all add: add_log_def)

lemma finally_calls: "ydl_calls (convert_youtube_finally e a w) = ydl_calls w"
  by (simp add: convert_youtube_finally_def add_log_fields split: option.split)

lemma dict_with_url:
  assumes "map_of kvs ''url'' = Some url"
  shows "truthy (JObj kvs)" "py_in ''url'' (JObj kvs) = Inr True"
    "py_subscript (JObj kvs) ''url'' = Inr url"
proof -
  from assms have "kvs \<noteq> []" by auto
  then show "truthy (JObj kvs)" by simp
  from assms have "''url'' \<in> fst ` set kvs" by (metis map_of_eq_None_iff option.distinct(1))
  then show "py_in ''url'' (JObj kvs) = Inr True" by simp
  show "py_subscript (JObj kvs) ''url'' = Inr url" using assms by simp
qed

text \<open>What the \<^verbatim>\<open>try\<close> block does once the body is a dict that has the key \<^verbatim>\<open>url\<close>.\<close>

lemma convert_youtube_try_download:
  assumes body: "json_body req = Inr (JObj kvs)" and url: "map_of kvs ''url'' = Some url"
    and dl: "ydl_download e (youtube_opts (path_join (TEMP_DIR e) (u @ ''.mp3''))) url (files w) = (raised, fs)"
  shows "convert_youtube_try e u req w =
    (let output_path = path_join (TEMP_DIR e) (u @ ''.mp3'');
         actual = replace ''.mp3'' [] output_path @ ''.mp3'';
         w3 = (add_log INFO (StartingDownload output_path) (add_log INFO (ReceivedRequest url) w))
                \<lparr>files := fs, ydl_calls := ydl_calls w @ [Download (youtube_opts output_path) url]\<rparr>
     in case raised of
          Some m \<Rightarrow> (Inl (Exn AdapterError m), None, w3)
        | None \<Rightarrow>
            if actual \<notin> fs
            then (Inr (Json 500 (error_body ''Failed to convert video'')), Some actual,
                  add_log ERROR (OutputNotFound actual) w3)
            else (send_file e actual True (Some (u @ ''.mp3'')) (Some ''audio/mpeg'') fs,
                  Some actual, add_log INFO (ConversionSuccessful actual) w3))"
  using dl unfolding convert_youtube_try_def body
  by (simp add: dict_with_url[OF url] add_log_fields Let_def del: truthy.simps py_in.simps py_subscript.simps split: option.split)

lemma convert_download:
  assumes body: "json_body req = Inr (JObj kvs)" and url: "truthy (dict_get kvs ''url'')"
    and dl: "ydl_download e (convert_opts (''/tmp/'' @ u @ ''.mp3'')) (dict_get kvs ''url'') (files w) = (raised, fs)"
  shows "convert e u req w =
    (let w1 = w\<lparr>files := fs,
                ydl_calls := ydl_calls w @
                  [Download (convert_opts (''/tmp/'' @ u @ ''.mp3'')) (dict_get kvs ''url'')]\<rparr>
     in case raised of
          Some m \<Rightarrow> (Inr (Json 500 (error_body m)), w1)
        | None \<Rightarrow> (send_file e (''/tmp/'' @ u @ ''.mp3'') True None None fs, w1))"
  using url dl unfolding convert_def body
  by (simp add: Let_def split: option.split)

lemma convert_youtube_download:
  assumes body: "json_body req = Inr (JObj kvs)" and url: "map_of kvs ''url'' = Some url"
    and dl: "ydl_download e (youtube_opts (path_join (TEMP_DIR e) (u @ ''.mp3''))) url (files w) = (raised, fs)"
    and actual: "actual = replace ''.mp3'' [] (path_join (TEMP_DIR e) (u @ ''.mp3'')) @ ''.mp3''"
  shows "fst (convert_youtube e u req w) =
      Inr (case raised of
             Some m \<Rightarrow> Json 500 (error_body m)
           | None \<Rightarrow>
               if actual \<notin> fs then Json 500 (error_body ''Failed to convert video'')
               else (case open_error e actual of
                       Some m \<Rightarrow> Json 500 (error_body m)
                     | None \<Rightarrow> File actual True (Some (u @ ''.mp3'')) (Some ''audio/mpeg'')))"
    and "ydl_calls (snd (convert_youtube e u req w)) =
      ydl_calls w @ [Download (youtube_opts (path_join (TEMP_DIR e) (u @ ''.mp3''))) url]"
    and "files (snd (convert_youtube e u req w)) =
      (case raised of
         Some m \<Rightarrow> fs
       | None \<Rightarrow> if actual \<in> fs \<and> os_remove_error e actual = None then fs - {actual} else fs)"
proof -
  note t = convert_youtube_try_download[OF body url dl]
  show "fst (convert_youtube e u req w) =
      Inr (case raised of
             Some m \<Rightarrow> Json 500 (error_body m)
           | None \<Rightarrow>
               if actual \<notin> fs then Json 500 (error_body ''Failed to convert video'')
               else (case open_error e actual of
                       Some m \<Rightarrow> Json 500 (error_body m)
                     | None \<Rightarrow> File actual True (Some (u @ ''.mp3'')) (Some ''audio/mpeg'')))"
    unfolding convert_youtube_def t actual
    by (simp add: Let_def send_file_def split: option.split)
  show "ydl_calls (snd (convert_youtube e u req w)) =
      ydl_calls w @ [Download (youtube_opts (path_join (TEMP_DIR e) (u @ ''.mp3''))) url]"
    unfolding convert_youtube_def t actual
    by (simp add: Let_def send_file_def finally_calls add_log_fields split: option.split)
  show "files (snd (convert_youtube e u req w)) =
      (case raised of
         Some m \<Rightarrow> fs
       | None \<Rightarrow> if actual \<in> fs \<and> os_remove_error e actual = None then fs - {actual} else fs)"
    unfolding convert_youtube_def t actual
    by (simp add: Let_def send_file_def convert_youtube_finally_def add_log_fields split: option.split)
qed

lemma convert_file_reply:
  assumes "fst (convert e u req w) = Inr (File p a d m)"
  shows "p = ''/tmp/'' @ u @ ''.mp3'' \<and> a \<and> d = None"
proof -
  from assms obtain kvs where b: "json_body req = Inr (JObj kvs)"
    by (auto simp: convert_def split: sum.splits json.splits)
  from assms b have t: "truthy (dict_get kvs ''url'')"
    by (auto simp: convert_def Let_def split: if_splits)
  obtain raised fs where dl:
    "ydl_download e (convert_opts (''/tmp/'' @ u @ ''.mp3'')) (dict_get kvs ''url'') (files w) = (raised, fs)"
    by (cases "ydl_download e (convert_opts (''/tmp/'' @ u @ ''.mp3'')) (dict_get kvs ''url'') (files w)")
  from assms show ?thesis
    unfolding convert_download[OF b t dl]
    by (auto simp: Let_def send_file_def split: option.splits if_splits)
qed

lemma convert_youtube_file_reply:
  assumes "fst (convert_youtube e u req w) = Inr (File p a d m)"
  shows "p = replace ''.mp3'' [] (path_join (TEMP_DIR e) (u @ ''.mp3'')) @ ''.mp3''
         \<and> a \<and> d = Some (u @ ''.mp3'') \<and> m = Some ''audio/mpeg''"
proof -
  obtain r act w1 where t: "convert_youtube_try e u req w = (r, act, w1)"
    by (cases "convert_youtube_try e u req w")
  from assms t have r: "r = Inr (File p a d m)"
    by (auto simp: convert_youtube_def split: sum.splits)
  from t r obtain data where b: "json_body req = Inr data"
    by (auto simp: convert_youtube_try_def split: sum.splits)
  from t r b have tr: "truthy data"
    by (auto simp: convert_youtube_try_def split: if_splits)
  from t r b tr have i: "py_in ''url'' data = Inr True"
    by (auto simp: convert_youtube_try_def split: sum.splits bool.splits)
  from t r b tr i obtain url where s: "py_subscript data ''url'' = Inr url"
    by (auto simp: convert_youtube_try_def split: sum.splits)
  obtain raised fs where dl:
    "ydl_download e (youtube_opts (path_join (TEMP_DIR e) (u @ ''.mp3''))) url (files w) = (raised, fs)"
    by (cases "ydl_download e (youtube_opts (path_join (TEMP_DIR e) (u @ ''.mp3''))) url (files w)")
  from t r show ?thesis
    unfolding convert_youtube_try_def b
    using tr i s dl
    by (auto simp: Let_def send_file_def add_log_fields split: option.splits if_splits)
qed

section \<open>The second server does what the first one omits\<close>

text \<open>
  \<^verbatim>\<open>convert_youtube\<close> and \<^verbatim>\<open>get_video_info\<close> catch every exception, \<^verbatim>\<open>convert_youtube\<close>
  hands the adapter a template without extension, answers 500 when the output file is
  missing and removes the file afterwards. Requests without a \<^verbatim>\<open>url\<close> are rejected by all
  three handlers.
\<close>

lemma convert_youtube_never_raises: "\<exists>r. fst (convert_youtube e u req w) = Inr r"
  by (simp add: convert_youtube_def Let_def split: prod.split sum.split)

lemma get_video_info_never_raises: "\<exists>r. fst (get_video_info e req w) = Inr r"
  by (simp add: get_video_info_def split: prod.split sum.split)

lemma try_reply_shape:
  assumes "convert_youtube_try e u req w = (Inr (Json s b), act, w1)"
  shows "(s = 400 \<or> s = 500) \<and> (\<exists>m. b = error_body m)"
proof -
  from assms obtain data where b: "json_body req = Inr data"
    by (auto simp: convert_youtube_try_def split: sum.splits)
  show ?thesis
  proof (cases "truthy data \<and> py_in ''url'' data = Inr True")
    case False
    with assms b show ?thesis
      by (auto simp: convert_youtube_try_def split: if_splits sum.splits bool.splits)
  next
    case True
    with assms b obtain url where s: "py_subscript data ''url'' = Inr url"
      by (auto simp: convert_youtube_try_def split: sum.splits)
    obtain raised fs where dl:
      "ydl_download e (youtube_opts (path_join (TEMP_DIR e) (u @ ''.mp3''))) url (files w) = (raised, fs)"
      by (cases "ydl_download e (youtube_opts (path_join (TEMP_DIR e) (u @ ''.mp3''))) url (files w)")
    from assms show ?thesis
      unfolding convert_youtube_try_def b
      using True s dl
      by (auto simp: Let_def send_file_def add_log_fields split: option.splits if_splits)
  qed
qed

lemma convert_youtube_reply_shape:
  "\<exists>r. fst (convert_youtube e u req w) = Inr r \<and>
     (case r of
        File p a d m \<Rightarrow> True
      | Json s b \<Rightarrow> (s = 400 \<or> s = 500) \<and> (\<exists>m. b = error_body m))"
proof -
  obtain r act w1 where t: "convert_youtube_try e u req w = (r, act, w1)"
    by (cases "convert_youtube_try e u req w")
  show ?thesis
  proof (cases r)
    case (Inl ex)
    with t show ?thesis by (auto simp: convert_youtube_def)
  next
    case (Inr resp)
    show ?thesis
    proof (cases resp)
      case (Json s b)
      with t Inr try_reply_shape[of e u req w s b act w1] show ?thesis
        by (simp add: convert_youtube_def)
    next
      case (File p a d m)
      with t Inr show ?thesis by (simp add: convert_youtube_def)
    qed
  qed
qed

lemma get_video_info_reply_shape:
  "\<exists>s b. fst (get_video_info e req w) = Inr (Json s b) \<and>
     (s = 200 \<or> (s = 400 \<or> s = 500) \<and> (\<exists>m. b = error_body m))"
proof -
  obtain r w1 where t: "get_video_info_try e req w = (r, w1)"
    by (cases "get_video_info_try e req w")
  show ?thesis
  proof (cases r)
    case (Inl ex)
    with t show ?thesis by (auto simp: get_video_info_def)
  next
    case (Inr resp)
    with t have "\<exists>s b. resp = Json s b \<and> (s = 200 \<or> s = 400 \<and> (\<exists>m. b = error_body m))"
      by (auto simp: get_video_info_try_def Let_def split: option.splits if_splits prod.splits sum.splits json.splits)
    with t Inr show ?thesis by (auto simp: get_video_info_def)
  qed
qed

lemma convert_youtube_template:
  assumes "uuid_text u" and "\<not> sublist ''.mp3'' (TEMP_DIR e)"
  shows "youtube_opts (path_join (TEMP_DIR e) (u @ ''.mp3'')) =
     [(''format'', JStr ''bestaudio/best''),
      (''postprocessors'',
         JArr [JObj [(''key'', JStr ''FFmpegExtractAudio''),
                     (''preferredcodec'', JStr ''mp3''),
                     (''preferredquality'', JStr ''192'')]]),
      (''outtmpl'', JStr (path_join (TEMP_DIR e) u)),
      (''quiet'', JBool False),
      (''no_warnings'', JBool False),
      (''noprogress'', JBool True)]"
  by (simp add: youtube_opts_def template_in_temp_dir[OF assms])

lemma convert_youtube_missing_output:
  assumes "json_body req = Inr (JObj kvs)" and "map_of kvs ''url'' = Some url"
    and "ydl_download e (youtube_opts (path_join (TEMP_DIR e) (u @ ''.mp3''))) url (files w) = (None, fs)"
    and "replace ''.mp3'' [] (path_join (TEMP_DIR e) (u @ ''.mp3'')) @ ''.mp3'' \<notin> fs"
  shows "fst (convert_youtube e u req w) = Inr (Json 500 (error_body ''Failed to convert video''))"
  using assms(4) by (simp add: convert_youtube_download(1)[OF assms(1-3) refl])

lemma convert_youtube_cleans_up:
  assumes "json_body req = Inr (JObj kvs)" and "map_of kvs ''url'' = Some url"
    and "ydl_download e (youtube_opts (path_join (TEMP_DIR e) (u @ ''.mp3''))) url (files w) = (None, fs)"
    and "os_remove_error e (replace ''.mp3'' [] (path_join (TEMP_DIR e) (u @ ''.mp3'')) @ ''.mp3'') = None"
  shows "replace ''.mp3'' [] (path_join (TEMP_DIR e) (u @ ''.mp3'')) @ ''.mp3''
           \<notin> files (snd (convert_youtube e u req w))"
  using assms(4) by (simp add: convert_youtube_download(3)[OF assms(1-3) refl])

lemma convert_youtube_delete_failure_only_warns:
  assumes "json_body req = Inr (JObj kvs)" and "map_of kvs ''url'' = Some url"
    and "ydl_download e (youtube_opts (path_join (TEMP_DIR e) (u @ ''.mp3''))) url (files w) = (None, fs)"
    and "actual = replace ''.mp3'' [] (path_join (TEMP_DIR e) (u @ ''.mp3'')) @ ''.mp3''"
    and "actual \<in> fs" and "os_remove_error e actual = Some m"
  shows "last (log (snd (convert_youtube e u req w))) = (WARNING, FailedDelete m)"
    and "fst (convert_youtube e u req w) =
       Inr (case open_error e actual of
              Some m' \<Rightarrow> Json 500 (error_body m')
            | None \<Rightarrow> File actual True (Some (u @ ''.mp3'')) (Some ''audio/mpeg''))"
proof -
  note t = convert_youtube_try_download[OF assms(1-3)]
  show "last (log (snd (convert_youtube e u req w))) = (WARNING, FailedDelete m)"
    unfolding convert_youtube_def t using assms(5,6) unfolding assms(4)
    by (simp add: Let_def send_file_def convert_youtube_finally_def add_log_fields split: option.split)
  show "fst (convert_youtube e u req w) =
       Inr (case open_error e actual of
              Some m' \<Rightarrow> Json 500 (error_body m')
            | None \<Rightarrow> File actual True (Some (u @ ''.mp3'')) (Some ''audio/mpeg''))"
    using assms(5) by (simp add: convert_youtube_download(1)[OF assms(1-4)])
qed

lemma missing_url_rejected:
  "json_body req = Inr (JObj kvs) \<Longrightarrow> \<not> truthy (dict_get kvs ''url'') \<Longrightarrow>
     convert e u req w = (Inr (Json 400 (error_body ''No URL provided'')), w)"
  "json_body req = Inr (JObj kvs) \<Longrightarrow> map_of kvs ''url'' = None \<Longrightarrow>
     convert_youtube e u req w = (Inr (Json 400 (error_body ''No URL provided'')), w)"
  "map_of (args req) ''url'' = None \<or> map_of (args req) ''url'' = Some [] \<Longrightarrow>
     get_video_info e req w = (Inr (Json 400 (error_body ''No URL provided'')), w)"
proof -
  show "convert e u req w = (Inr (Json 400 (error_body ''No URL provided'')), w)"
    if "json_body req = Inr (JObj kvs)" "\<not> truthy (dict_get kvs ''url'')"
    using that by (simp add: convert_def)
  show "convert_youtube e u req w = (Inr (Json 400 (error_body ''No URL provided'')), w)"
    if "json_body req = Inr (JObj kvs)" "map_of kvs ''url'' = None"
  proof -
    from that(2) have "''url'' \<notin> fst ` set kvs" by (simp add: map_of_eq_None_iff)
    then have "convert_youtube_try e u req w = (Inr (Json 400 (error_body ''No URL provided'')), None, w)"
      using that(1) by (simp add: convert_youtube_try_def)
    then show ?thesis by (simp add: convert_youtube_def convert_youtube_finally_def)
  qed
  show "get_video_info e req w = (Inr (Json 400 (error_body ''No URL provided'')), w)"
    if "map_of (args req) ''url'' = None \<or> map_of (args req) ''url'' = Some []"
    using that by (auto simp: get_video_info_def get_video_info_try_def)
qed


text \<open>
  Distinct UUID texts give distinct temporary paths in both servers. That two draws of
  \<^verbatim>\<open>uuid.uuid4()\<close> differ is a matter of the random generator, not of the handlers.
\<close>

lemma temp_names_distinct:
  assumes "uuid_text u" and "uuid_text v" and "u \<noteq> v" and "\<not> sublist ''.mp3'' T"
  shows "''/tmp/'' @ u @ ''.mp3'' \<noteq> ''/tmp/'' @ v @ ''.mp3''"
    and "replace ''.mp3'' [] (path_join T (u @ ''.mp3'')) @ ''.mp3''
         \<noteq> replace ''.mp3'' [] (path_join T (v @ ''.mp3'')) @ ''.mp3''"
proof -
  show "''/tmp/'' @ u @ ''.mp3'' \<noteq> ''/tmp/'' @ v @ ''.mp3''" using assms(3) by simp
  have "path_join T u \<noteq> path_join T v"
    using assms(3) uuid_not_abs[OF assms(1), of "[]"] uuid_not_abs[OF assms(2), of "[]"]
    by (simp add: path_join_def)
  then show "replace ''.mp3'' [] (path_join T (u @ ''.mp3'')) @ ''.mp3''
         \<noteq> replace ''.mp3'' [] (path_join T (v @ ''.mp3'')) @ ''.mp3''"
    by (simp add: template_in_temp_dir[OF assms(1,4)] template_in_temp_dir[OF assms(2,4)])
qed

section \<open>Properties\<close>

text \<open>
  C1. A convert request whose body carries an empty \<^verbatim>\<open>url\<close> is not rejected by
  \<^verbatim>\<open>convert_youtube\<close>: its guard only asks whether the key is present, so the adapter is
  invoked with the empty URL and the answer is never a 400, whatever the adapter does.
\<close>

theorem convert_youtube_accepts_empty_url:
  "ydl_calls (snd (convert_youtube e u \<lparr>json_body = Inr (JObj [(''url'', JStr [])]), args = a\<rparr> w))
     = ydl_calls w @ [Download (youtube_opts (path_join (TEMP_DIR e) (u @ ''.mp3''))) (JStr [])]
   \<and> (\<exists>r. fst (convert_youtube e u \<lparr>json_body = Inr (JObj [(''url'', JStr [])]), args = a\<rparr> w) = Inr r
          \<and> status_code r \<noteq> 400)"
proof -
  let ?req = "\<lparr>json_body = Inr (JObj [(''url'', JStr [])]), args = a\<rparr>"
  obtain raised fs where dl:
    "ydl_download e (youtube_opts (path_join (TEMP_DIR e) (u @ ''.mp3''))) (JStr []) (files w) = (raised, fs)"
    by (cases "ydl_download e (youtube_opts (path_join (TEMP_DIR e) (u @ ''.mp3''))) (JStr []) (files w)")
  have body: "json_body ?req = Inr (JObj [(''url'', JStr [])])" by simp
  have url: "map_of [(''url'', JStr [])] ''url'' = Some (JStr [])" by simp
  note f = convert_youtube_download[OF body url dl refl]
  have "status_code (case raised of
             Some m \<Rightarrow> Json 500 (error_body m)
           | None \<Rightarrow>
               if replace ''.mp3'' [] (path_join (TEMP_DIR e) (u @ ''.mp3'')) @ ''.mp3'' \<notin> fs
               then Json 500 (error_body ''Failed to convert video'')
               else (case open_error e (replace ''.mp3'' [] (path_join (TEMP_DIR e) (u @ ''.mp3'')) @ ''.mp3'') of
                       Some m \<Rightarrow> Json 500 (error_body m)
                     | None \<Rightarrow> File (replace ''.mp3'' [] (path_join (TEMP_DIR e) (u @ ''.mp3'')) @ ''.mp3'')
                                True (Some (u @ ''.mp3'')) (Some ''audio/mpeg''))) \<noteq> 400"
    by (simp split: option.split)
  with f(1) f(2) show ?thesis by simp
qed

text \<open>
  C2. \<^verbatim>\<open>convert\<close> of \<^verbatim>\<open>app.py\<close> removes nothing: after a successful adapter call the
  files on disk are exactly those the adapter left, the temporary output file among them.
\<close>

theorem convert_keeps_temp_file:
  assumes "json_body req = Inr (JObj kvs)" and "truthy (dict_get kvs ''url'')"
    and "ydl_download e (convert_opts (''/tmp/'' @ u @ ''.mp3'')) (dict_get kvs ''url'') (files w) = (None, fs)"
  shows "files (snd (convert e u req w)) = fs"
  by (simp add: convert_download[OF assms] Let_def)

theorem convert_keeps_temp_file_witness:
  "fst (convert (sample_env adapter_writes_template) sample_uuid
          (sample_request ''https://youtu.be/dQw4w9WgXcQ'') empty_world)
     = Inr (File ''/tmp/1b4e28ba-2fa1-41d2-883f-0016d3cca427.mp3'' True None None)
   \<and> files (snd (convert (sample_env adapter_writes_template) sample_uuid
          (sample_request ''https://youtu.be/dQw4w9WgXcQ'') empty_world))
     = {''/tmp/1b4e28ba-2fa1-41d2-883f-0016d3cca427.mp3''}"
proof -
  let ?e = "sample_env adapter_writes_template"
  let ?req = "sample_request ''https://youtu.be/dQw4w9WgXcQ''"
  have b: "json_body ?req = Inr (JObj [(''url'', JStr ''https://youtu.be/dQw4w9WgXcQ'')])"
    by (simp add: sample_request_def)
  have t: "truthy (dict_get [(''url'', JStr ''https://youtu.be/dQw4w9WgXcQ'')] ''url'')"
    by (simp add: dict_get_def)
  have d: "ydl_download ?e (convert_opts (''/tmp/'' @ sample_uuid @ ''.mp3''))
             (dict_get [(''url'', JStr ''https://youtu.be/dQw4w9WgXcQ'')] ''url'') (files empty_world)
           = (None, {''/tmp/1b4e28ba-2fa1-41d2-883f-0016d3cca427.mp3''})"
    by (simp add: sample_env_def adapter_writes_template_def convert_opts_def sample_uuid_def
          empty_world_def)
  have "fst (convert ?e sample_uuid ?req empty_world)
        = Inr (File ''/tmp/1b4e28ba-2fa1-41d2-883f-0016d3cca427.mp3'' True None None)"
    by (subst convert_download[OF b t d]) (simp add: send_file_def sample_env_def sample_uuid_def)
  with convert_keeps_temp_file[OF b t d] show ?thesis by simp
qed

text \<open>
  C3. \<^verbatim>\<open>convert\<close> of \<^verbatim>\<open>app.py\<close> invokes the adapter with the format selector
  \<^verbatim>\<open>bestaudio/best\<close> and one MP3 post-processing stage, but the stage names no quality
  and the output template is the full path with its \<^verbatim>\<open>.mp3\<close> extension.
\<close>

theorem convert_passes_extension_in_template:
  assumes "json_body req = Inr (JObj kvs)" and "truthy (dict_get kvs ''url'')"
  shows "ydl_calls (snd (convert e u req w)) =
     ydl_calls w @
       [Download
          [(''format'', JStr ''bestaudio/best''),
           (''outtmpl'', JStr (''/tmp/'' @ u @ ''.mp3'')),
           (''postprocessors'',
              JArr [JObj [(''key'', JStr ''FFmpegExtractAudio''), (''preferredcodec'', JStr ''mp3'')]])]
          (dict_get kvs ''url'')]"
proof -
  obtain raised fs where dl:
    "ydl_download e (convert_opts (''/tmp/'' @ u @ ''.mp3'')) (dict_get kvs ''url'') (files w) = (raised, fs)"
    by (cases "ydl_download e (convert_opts (''/tmp/'' @ u @ ''.mp3'')) (dict_get kvs ''url'') (files w)")
  show ?thesis
    by (simp add: convert_download[OF assms dl] convert_opts_def Let_def split: option.split)
qed

theorem convert_passes_extension_in_template_witness:
  "ydl_calls (snd (convert (sample_env adapter_appends_extension) sample_uuid
          (sample_request ''https://youtu.be/dQw4w9WgXcQ'') empty_world)) =
     [Download
        [(''format'', JStr ''bestaudio/best''),
         (''outtmpl'', JStr ''/tmp/1b4e28ba-2fa1-41d2-883f-0016d3cca427.mp3''),
         (''postprocessors'',
            JArr [JObj [(''key'', JStr ''FFmpegExtractAudio''), (''preferredcodec'', JStr ''mp3'')]])]
        (JStr ''https://youtu.be/dQw4w9WgXcQ'')]"
proof -
  let ?req = "sample_request ''https://youtu.be/dQw4w9WgXcQ''"
  have b: "json_body ?req = Inr (JObj [(''url'', JStr ''https://youtu.be/dQw4w9WgXcQ'')])"
    by (simp add: sample_request_def)
  have t: "truthy (dict_get [(''url'', JStr ''https://youtu.be/dQw4w9WgXcQ'')] ''url'')"
    by (simp add: dict_get_def)
  from convert_passes_extension_in_template[OF b t, of "sample_env adapter_appends_extension" sample_uuid empty_world]
  show ?thesis by (simp add: empty_world_def sample_uuid_def dict_get_def)
qed

text \<open>
  C4, as stated, fails where the exception of the adapter has an empty text: the
  \<^verbatim>\<open>error\<close> member is then the empty string.
\<close>

theorem adapter_error_text_counterexample:
  "ydl_download (sample_env (adapter_raises [])) (convert_opts (''/tmp/'' @ sample_uuid @ ''.mp3''))
      (JStr ''https://youtu.be/dQw4w9WgXcQ'') {} = (Some [], {})
   \<and> fst (convert (sample_env (adapter_raises [])) sample_uuid
          (sample_request ''https://youtu.be/dQw4w9WgXcQ'') empty_world)
     = Inr (Json 500 (JObj [(''error'', JStr [])]))
   \<and> fst (convert_youtube (sample_env (adapter_raises [])) sample_uuid
          (sample_request ''https://youtu.be/dQw4w9WgXcQ'') empty_world)
     = Inr (Json 500 (JObj [(''error'', JStr [])]))"
proof -
  let ?e = "sample_env (adapter_raises [])"
  let ?req = "sample_request ''https://youtu.be/dQw4w9WgXcQ''"
  have b: "json_body ?req = Inr (JObj [(''url'', JStr ''https://youtu.be/dQw4w9WgXcQ'')])"
    by (simp add: sample_request_def)
  have t: "truthy (dict_get [(''url'', JStr ''https://youtu.be/dQw4w9WgXcQ'')] ''url'')"
    by (simp add: dict_get_def)
  have m: "map_of [(''url'', JStr ''https://youtu.be/dQw4w9WgXcQ'')] ''url''
           = Some (JStr ''https://youtu.be/dQw4w9WgXcQ'')" by simp
  have d: "ydl_download ?e opts url fs = (Some [], fs)" for opts url fs
    by (simp add: sample_env_def adapter_raises_def)
  have 1: "fst (convert ?e sample_uuid ?req empty_world) = Inr (Json 500 (JObj [(''error'', JStr [])]))"
    by (subst convert_download[OF b t d]) (simp add: error_body_def)
  have 2: "fst (convert_youtube ?e sample_uuid ?req empty_world) = Inr (Json 500 (JObj [(''error'', JStr [])]))"
    by (subst convert_youtube_download(1)[OF b m d refl]) (simp add: error_body_def)
  from d 1 2 show ?thesis by simp
qed

text \<open>
  C4, amended. When the adapter raises during a convert request, either handler answers
  with status 500 and a JSON body whose \<^verbatim>\<open>error\<close> member is exactly the text of the
  exception, \<^verbatim>\<open>str(e)\<close>; it is non-empty whenever that text is.
\<close>

theorem adapter_error_is_reported:
  "(json_body req = Inr (JObj kvs) \<and> truthy (dict_get kvs ''url'')
      \<and> ydl_download e (convert_opts (''/tmp/'' @ u @ ''.mp3'')) (dict_get kvs ''url'') (files w) = (Some m, fs)
    \<longrightarrow> fst (convert e u req w) = Inr (Json 500 (JObj [(''error'', JStr m)])))
   \<and> (json_body req = Inr (JObj kvs) \<and> map_of kvs ''url'' = Some url
      \<and> ydl_download e (youtube_opts (path_join (TEMP_DIR e) (u @ ''.mp3''))) url (files w) = (Some m, fs)
    \<longrightarrow> fst (convert_youtube e u req w) = Inr (Json 500 (JObj [(''error'', JStr m)])))"
proof (intro conjI impI)
  assume "json_body req = Inr (JObj kvs) \<and> truthy (dict_get kvs ''url'')
      \<and> ydl_download e (convert_opts (''/tmp/'' @ u @ ''.mp3'')) (dict_get kvs ''url'') (files w) = (Some m, fs)"
  then have a: "json_body req = Inr (JObj kvs)" "truthy (dict_get kvs ''url'')"
    "ydl_download e (convert_opts (''/tmp/'' @ u @ ''.mp3'')) (dict_get kvs ''url'') (files w) = (Some m, fs)"
    by blast+
  show "fst (convert e u req w) = Inr (Json 500 (JObj [(''error'', JStr m)]))"
    by (simp add: convert_download[OF a] error_body_def Let_def)
next
  assume "json_body req = Inr (JObj kvs) \<and> map_of kvs ''url'' = Some url
      \<and> ydl_download e (youtube_opts (path_join (TEMP_DIR e) (u @ ''.mp3''))) url (files w) = (Some m, fs)"
  then have a: "json_body req = Inr (JObj kvs)" "map_of kvs ''url'' = Some url"
    "ydl_download e (youtube_opts (path_join (TEMP_DIR e) (u @ ''.mp3''))) url (files w) = (Some m, fs)"
    by blast+
  show "fst (convert_youtube e u req w) = Inr (Json 500 (JObj [(''error'', JStr m)]))"
    by (simp add: convert_youtube_download(1)[OF a refl] error_body_def)
qed

theorem adapter_error_is_reported_witness:
  "fst (convert (sample_env (adapter_raises ''ERROR: Video unavailable'')) sample_uuid
          (sample_request ''https://youtu.be/dQw4w9WgXcQ'') empty_world)
     = Inr (Json 500 (JObj [(''error'', JStr ''ERROR: Video unavailable'')]))
   \<and> fst (convert_youtube (sample_env (adapter_raises ''ERROR: Video unavailable'')) sample_uuid
          (sample_request ''https://youtu.be/dQw4w9WgXcQ'') empty_world)
     = Inr (Json 500 (JObj [(''error'', JStr ''ERROR: Video unavailable'')]))"
proof -
  let ?e = "sample_env (adapter_raises ''ERROR: Video unavailable'')"
  let ?req = "sample_request ''https://youtu.be/dQw4w9WgXcQ''"
  have b: "json_body ?req = Inr (JObj [(''url'', JStr ''https://youtu.be/dQw4w9WgXcQ'')])"
    by (simp add: sample_request_def)
  have t: "truthy (dict_get [(''url'', JStr ''https://youtu.be/dQw4w9WgXcQ'')] ''url'')"
    by (simp add: dict_get_def)
  have g: "dict_get [(''url'', JStr ''https://youtu.be/dQw4w9WgXcQ'')] ''url''
           = JStr ''https://youtu.be/dQw4w9WgXcQ''" by (simp add: dict_get_def)
  have m: "map_of [(''url'', JStr ''https://youtu.be/dQw4w9WgXcQ'')] ''url''
           = Some (JStr ''https://youtu.be/dQw4w9WgXcQ'')" by simp
  have d: "ydl_download ?e opts url fs = (Some ''ERROR: Video unavailable'', fs)" for opts url fs
    by (simp add: sample_env_def adapter_raises_def)
  from adapter_error_is_reported[of ?req "[(''url'', JStr ''https://youtu.be/dQw4w9WgXcQ'')]" ?e
      sample_uuid empty_world "''ERROR: Video unavailable''" "files empty_world" "JStr ''https://youtu.be/dQw4w9WgXcQ''"]
  show ?thesis using b t m d by simp
qed

text \<open>
  C5. In \<^verbatim>\<open>convert\<close> of \<^verbatim>\<open>app.py\<close> only the adapter call stands inside a \<^verbatim>\<open>try\<close>: on
  the JSON body \<^verbatim>\<open>null\<close> the call \<^verbatim>\<open>data.get('url')\<close> raises an \<^verbatim>\<open>AttributeError\<close>
  that leaves the handler.
\<close>

theorem convert_non_dict_body_raises:
  "fst (convert e u \<lparr>json_body = Inr JNull, args = a\<rparr> w)
     = Inl (Exn AttributeError
         ([CHR 0x27] @ ''NoneType'' @ [CHR 0x27] @ '' object has no attribute '' @ [CHR 0x27] @ ''get'' @ [CHR 0x27]))"
  by (simp add: convert_def)

text \<open>
  C6. An info request with a non-empty \<^verbatim>\<open>url\<close> on which the metadata extraction succeeds is
  answered with status 200 and a JSON object of exactly the five members \<^verbatim>\<open>id\<close>,
  \<^verbatim>\<open>title\<close>, \<^verbatim>\<open>uploader\<close>, \<^verbatim>\<open>duration\<close> and \<^verbatim>\<open>thumbnail\<close>. Each is the value the
  metadata has under that key, and \<^verbatim>\<open>null\<close> when the key is absent. The handler touches no
  file: the files afterwards are those the adapter's call left, and that one call is
  \<^verbatim>\<open>extract_info\<close> with \<^verbatim>\<open>download=False\<close> under the option \<^verbatim>\<open>skip_download\<close>.
\<close>

theorem get_video_info_projects_five_fields:
  assumes "map_of (args req) ''url'' = Some url" and "url \<noteq> []"
    and "ydl_extract_info e info_opts (JStr url) False (files w) = (Inr (JObj kvs), fs)"
  shows "fst (get_video_info e req w) =
           Inr (Json 200 (JObj
             [(''id'', dict_get kvs ''id''),
              (''title'', dict_get kvs ''title''),
              (''uploader'', dict_get kvs ''uploader''),
              (''duration'', dict_get kvs ''duration''),
              (''thumbnail'', dict_get kvs ''thumbnail'')]))
         \<and> (\<forall>k. map_of kvs k = None \<longrightarrow> dict_get kvs k = JNull)
         \<and> (\<forall>k v. map_of kvs k = Some v \<longrightarrow> dict_get kvs k = v)
         \<and> files (snd (get_video_info e req w)) = fs
         \<and> ydl_calls (snd (get_video_info e req w)) = ydl_calls w @ [ExtractInfo info_opts (JStr url) False]
         \<and> map_of info_opts ''skip_download'' = Some (JBool True)"
proof -
  have t: "get_video_info_try e req w =
      (Inr (Json 200 (JObj
             [(''id'', dict_get kvs ''id''),
              (''title'', dict_get kvs ''title''),
              (''uploader'', dict_get kvs ''uploader''),
              (''duration'', dict_get kvs ''duration''),
              (''thumbnail'', dict_get kvs ''thumbnail'')])),
       (add_log INFO (GettingInfo url) w)
          \<lparr>files := fs, ydl_calls := ydl_calls w @ [ExtractInfo info_opts (JStr url) False]\<rparr>)"
    using assms by (simp add: get_video_info_try_def Let_def add_log_fields)
  show ?thesis
    by (simp add: get_video_info_def t dict_get_def) (simp add: info_opts_def)
qed

theorem get_video_info_projects_five_fields_witness:
  "fst (get_video_info (sample_env adapter_appends_extension)
          (sample_request ''https://youtu.be/dQw4w9WgXcQ'') empty_world) =
     Inr (Json 200 (JObj
       [(''id'', JStr ''dQw4w9WgXcQ''),
        (''title'', JStr ''A song''),
        (''uploader'', JNull),
        (''duration'', JNum 212),
        (''thumbnail'', JNull)]))
   \<and> files (snd (get_video_info (sample_env adapter_appends_extension)
          (sample_request ''https://youtu.be/dQw4w9WgXcQ'') empty_world)) = {}"
proof -
  let ?e = "sample_env adapter_appends_extension"
  let ?req = "sample_request ''https://youtu.be/dQw4w9WgXcQ''"
  let ?kvs = "[(''id'', JStr ''dQw4w9WgXcQ''), (''title'', JStr ''A song''), (''duration'', JNum 212)]"
  have a: "map_of (args ?req) ''url'' = Some ''https://youtu.be/dQw4w9WgXcQ''"
    by (simp add: sample_request_def)
  have n: "''https://youtu.be/dQw4w9WgXcQ'' \<noteq> []" by simp
  have x: "ydl_extract_info ?e info_opts (JStr ''https://youtu.be/dQw4w9WgXcQ'') False (files empty_world)
           = (Inr (JObj ?kvs), {})"
    by (simp add: sample_env_def empty_world_def)
  from get_video_info_projects_five_fields[OF a n x] show ?thesis by (simp add: dict_get_def)
qed

text \<open>
  C7. When the adapter returns without raising and the file is not at the computed path,
  \<^verbatim>\<open>convert\<close> of \<^verbatim>\<open>app.py\<close> still calls \<^verbatim>\<open>send_file\<close> on it, and the exception that
  raises leaves the handler.
\<close>

theorem convert_missing_output_raises:
  assumes "json_body req = Inr (JObj kvs)" and "truthy (dict_get kvs ''url'')"
    and "ydl_download e (convert_opts (''/tmp/'' @ u @ ''.mp3'')) (dict_get kvs ''url'') (files w) = (None, fs)"
    and "''/tmp/'' @ u @ ''.mp3'' \<notin> fs"
  shows "fst (convert e u req w)
     = Inl (Exn OSError (''No such file or directory: '' @ ''/tmp/'' @ u @ ''.mp3''))"
  using assms(4) by (simp add: convert_download[OF assms(1-3)] send_file_def Let_def)

theorem convert_missing_output_raises_witness:
  "fst (convert (sample_env adapter_appends_extension) sample_uuid
          (sample_request ''https://youtu.be/dQw4w9WgXcQ'') empty_world)
     = Inl (Exn OSError ''No such file or directory: /tmp/1b4e28ba-2fa1-41d2-883f-0016d3cca427.mp3'')"
proof -
  let ?e = "sample_env adapter_appends_extension"
  let ?req = "sample_request ''https://youtu.be/dQw4w9WgXcQ''"
  have b: "json_body ?req = Inr (JObj [(''url'', JStr ''https://youtu.be/dQw4w9WgXcQ'')])"
    by (simp add: sample_request_def)
  have t: "truthy (dict_get [(''url'', JStr ''https://youtu.be/dQw4w9WgXcQ'')] ''url'')"
    by (simp add: dict_get_def)
  have d: "ydl_download ?e (convert_opts (''/tmp/'' @ sample_uuid @ ''.mp3''))
             (dict_get [(''url'', JStr ''https://youtu.be/dQw4w9WgXcQ'')] ''url'') (files empty_world)
           = (None, {''/tmp/1b4e28ba-2fa1-41d2-883f-0016d3cca427.mp3.mp3''})"
    by (simp add: sample_env_def adapter_appends_extension_def convert_opts_def sample_uuid_def
          empty_world_def)
  have n: "''/tmp/'' @ sample_uuid @ ''.mp3'' \<notin> {''/tmp/1b4e28ba-2fa1-41d2-883f-0016d3cca427.mp3.mp3''}"
    by (simp add: sample_uuid_def)
  from convert_missing_output_raises[OF b t d n] show ?thesis by (simp add: sample_uuid_def)
qed

text \<open>
  C9. The liveness check takes no input and always answers with status 200 and the same
  payload, which has a \<^verbatim>\<open>status\<close> member; the answer does not depend on the state of the
  system, and the check leaves that state as it was.
\<close>

theorem ping_fixed:
  "fst (ping w) = Inr (Json 200 (JObj [(''status'', JStr ''ok''), (''message'', JStr ''Server is running'')]))
   \<and> snd (ping w) = w
   \<and> fst (ping w) = fst (ping w')"
  by (simp add: ping_def)

text \<open>
  C10. Whenever a convert request succeeds, that is, the handler returns the file, the name
  the client sees for the attachment is the generated \<^verbatim>\<open><uuid4>.mp3\<close>, which is also the
  base name of the temporary file; it depends on nothing the adapter extracted.
\<close>

theorem attachment_name_is_generated_filename:
  assumes "uuid_text u"
  shows "(fst (convert e u req w) = Inr (File p a d m) \<longrightarrow>
            p = ''/tmp/'' @ u @ ''.mp3'' \<and> attachment_name (File p a d m) = Some (u @ ''.mp3''))
       \<and> (fst (convert_youtube e u req w) = Inr (File p a d m) \<longrightarrow>
            basename p = u @ ''.mp3'' \<and> attachment_name (File p a d m) = Some (u @ ''.mp3''))"
proof (intro conjI impI)
  from uuid_text_chars[OF assms] have sl: "CHR ''/'' \<notin> set (u @ ''.mp3'')" by simp
  {
    assume "fst (convert e u req w) = Inr (File p a d m)"
    from convert_file_reply[OF this] have f: "p = ''/tmp/'' @ u @ ''.mp3''" "a" "d = None" by simp_all
    show "p = ''/tmp/'' @ u @ ''.mp3''" by (rule f(1))
    have "basename (''/tmp'' @ CHR ''/'' # (u @ ''.mp3'')) = u @ ''.mp3''"
      using sl by (rule basename_after_sep)
    then show "attachment_name (File p a d m) = Some (u @ ''.mp3'')" using f by simp
  }
  {
    assume "fst (convert_youtube e u req w) = Inr (File p a d m)"
    from convert_youtube_file_reply[OF this]
    have f: "p = replace ''.mp3'' [] (path_join (TEMP_DIR e) (u @ ''.mp3'')) @ ''.mp3''" "a"
      "d = Some (u @ ''.mp3'')" by simp_all
    show "basename p = u @ ''.mp3''" unfolding f(1) using assms by (rule actual_basename)
    show "attachment_name (File p a d m) = Some (u @ ''.mp3'')" using f by simp
  }
qed

theorem attachment_name_is_generated_filename_witness:
  "uuid_text sample_uuid
   \<and> fst (convert (sample_env adapter_writes_template) sample_uuid
          (sample_request ''https://youtu.be/dQw4w9WgXcQ'') empty_world)
       = Inr (File ''/tmp/1b4e28ba-2fa1-41d2-883f-0016d3cca427.mp3'' True None None)
   \<and> attachment_name (File ''/tmp/1b4e28ba-2fa1-41d2-883f-0016d3cca427.mp3'' True None None)
       = Some ''1b4e28ba-2fa1-41d2-883f-0016d3cca427.mp3''
   \<and> fst (convert_youtube (sample_env adapter_appends_extension) sample_uuid
          (sample_request ''https://youtu.be/dQw4w9WgXcQ'') empty_world)
       = Inr (File ''/tmp/1b4e28ba-2fa1-41d2-883f-0016d3cca427.mp3'' True
                (Some ''1b4e28ba-2fa1-41d2-883f-0016d3cca427.mp3'') (Some ''audio/mpeg''))
   \<and> basename ''/tmp/1b4e28ba-2fa1-41d2-883f-0016d3cca427.mp3''
       = ''1b4e28ba-2fa1-41d2-883f-0016d3cca427.mp3''"
proof -
  let ?req = "sample_request ''https://youtu.be/dQw4w9WgXcQ''"
  let ?url = "JStr ''https://youtu.be/dQw4w9WgXcQ''"
  have b: "json_body ?req = Inr (JObj [(''url'', ?url)])" by (simp add: sample_request_def)
  have t: "truthy (dict_get [(''url'', ?url)] ''url'')" by (simp add: dict_get_def)
  have m: "map_of [(''url'', ?url)] ''url'' = Some ?url" by simp
  have ns: "\<not> sublist ''.mp3'' ''/tmp''" by (simp add: sublist_code)
  have tmpl: "replace ''.mp3'' [] (path_join ''/tmp'' (sample_uuid @ ''.mp3'')) = ''/tmp/'' @ sample_uuid"
    using template_in_temp_dir[OF uuid_example ns] by (simp add: path_join_def sample_uuid_def)
  have d1: "ydl_download (sample_env adapter_writes_template) (convert_opts (''/tmp/'' @ sample_uuid @ ''.mp3''))
             (dict_get [(''url'', ?url)] ''url'') (files empty_world)
           = (None, {''/tmp/'' @ sample_uuid @ ''.mp3''})"
    by (simp add: sample_env_def adapter_writes_template_def convert_opts_def empty_world_def)
  have c1: "fst (convert (sample_env adapter_writes_template) sample_uuid ?req empty_world)
        = Inr (File (''/tmp/'' @ sample_uuid @ ''.mp3'') True None None)"
    by (subst convert_download[OF b t d1]) (simp add: send_file_def sample_env_def)
  have d2: "ydl_download (sample_env adapter_appends_extension)
             (youtube_opts (path_join (TEMP_DIR (sample_env adapter_appends_extension)) (sample_uuid @ ''.mp3'')))
             ?url (files empty_world)
           = (None, {''/tmp/'' @ sample_uuid @ ''.mp3''})"
    using tmpl by (simp add: sample_env_def adapter_appends_extension_def youtube_opts_def empty_world_def)
  have c2: "fst (convert_youtube (sample_env adapter_appends_extension) sample_uuid ?req empty_world)
        = Inr (File (''/tmp/'' @ sample_uuid @ ''.mp3'') True (Some (sample_uuid @ ''.mp3'')) (Some ''audio/mpeg''))"
    using tmpl by (subst convert_youtube_download(1)[OF b m d2 refl]) (simp add: sample_env_def)
  from attachment_name_is_generated_filename[OF uuid_example, of "sample_env adapter_writes_template" ?req
      empty_world "''/tmp/'' @ sample_uuid @ ''.mp3''" True None None] c1
  have a1: "attachment_name (File (''/tmp/'' @ sample_uuid @ ''.mp3'') True None None) = Some (sample_uuid @ ''.mp3'')"
    by blast
  from attachment_name_is_generated_filename[OF uuid_example, of "sample_env adapter_appends_extension" ?req
      empty_world "''/tmp/'' @ sample_uuid @ ''.mp3''" True "Some (sample_uuid @ ''.mp3'')" "Some ''audio/mpeg''"] c2
  have a2: "basename (''/tmp/'' @ sample_uuid @ ''.mp3'') = sample_uuid @ ''.mp3''"
    by blast
  from uuid_example c1 a1 c2 a2 show ?thesis by (simp add: sample_uuid_def)
qed

end
